theory Spec2Isabelle
  imports Complex_Main
begin

section \<open>Python values, exceptions and entities\<close>

text \<open>
  Exceptions that the two modules raise or pass on, each with the text it is made with.
  \<open>OtherError d s\<close> is any other exception object, with its optional \<open>description\<close>
  attribute \<open>d\<close> and its text \<open>s\<close> (\<open>_handle_error\<close> reads both).
\<close>

datatype exc =
    ValueError string
  | TypeError string
  | AttributeError string
  | KeyError string
  | IndexError string
  | ConversationTaskStoppedException
  | InvokeAuthorizationError string
  | InvokeError string
  | Exception string
  | OtherError "string option" string

text \<open>
  Dynamically typed Python data as it occurs in event payloads, metadata and response
  dictionaries. A dictionary is an association list in insertion order. \<open>PSaModel\<close> is an
  instance of an SQLAlchemy model (an object with \<open>_sa_instance_state\<close>); \<open>PExc\<close> is an
  exception object; \<open>PDec\<close> is a \<open>Decimal\<close> (the code copies prices, it never computes
  with them).
\<close>

datatype pyval =
    PNone
  | PStr string
  | PInt int
  | PDec rat
  | PExc exc
  | PSaModel string
  | PList "pyval list"
  | PDict "(string \<times> pyval) list"

datatype invoke_from = SERVICE_API | WEB_APP | EXPLORE | DEBUGGER

datatype prompt_message_role = USER | ASSISTANT | SYSTEM | TOOL

datatype prompt_message_content =
    TextPromptMessageContent string
  | ImagePromptMessageContent string string

datatype message_content =
    ContentStr string
  | ContentList "prompt_message_content list"

record prompt_message =
  role :: prompt_message_role
  content :: message_content

record llm_usage =
  prompt_tokens :: int
  prompt_unit_price :: rat
  prompt_price_unit :: rat
  prompt_price :: rat
  completion_tokens :: int
  completion_unit_price :: rat
  completion_price_unit :: rat
  completion_price :: rat
  total_tokens :: int
  total_price :: rat
  currency :: string

text \<open>
  \<open>LLMResult\<close>: the fields the pipeline reads. \<open>message_text\<close> is
  \<open>llm_result.message.content\<close>, the assembled text.
\<close>

record llm_result =
  model :: string
  prompt_messages :: "prompt_message list"
  message_text :: string
  usage :: llm_usage

text \<open>
  \<open>LLMResultChunk\<close>: \<open>delta_text\<close> is \<open>chunk.delta.message.content\<close>, which the pipeline
  tests against \<open>None\<close>.
\<close>

record llm_result_chunk =
  chunk_model :: string
  chunk_prompt_messages :: "prompt_message list"
  delta_text :: "string option"

text \<open>
  Modelled from the spec: the event classes of \<open>core.entities.queue_entities\<close> are not in
  the source tree. The variants and their fields are those the two modules construct and
  read; \<open>Ping\<close> and \<open>Stop\<close> carry no payload.
\<close>

datatype queue_event =
    QueuePingEvent
  | QueueStopEvent
  | QueueErrorEvent exc
  | QueueAgentThoughtEvent string
  | QueueMessageEndEvent llm_result
  | QueueRetrieverResourcesEvent "pyval list"
  | QueueMessageReplaceEvent string
  | QueueMessageEvent llm_result_chunk

record queue_message =
  qm_task_id :: string
  qm_message_id :: string
  qm_conversation_id :: string
  qm_app_mode :: string
  qm_event :: queue_event

section \<open>The key-value store\<close>

text \<open>
  Modelled from the spec: the client \<open>extensions.ext_redis.redis_client\<close> is not in the source
  tree. The store maps a key to the value and the time-to-live given to \<open>setex\<close>; \<open>get\<close>
  returns the stored value, \<open>delete\<close> removes the key. Expiry is not modelled.
\<close>

type_synonym store = "string \<rightharpoonup> (pyval \<times> nat)"

definition redis_get :: "store \<Rightarrow> string \<Rightarrow> pyval option" where
  "redis_get s k = map_option fst (s k)"

definition redis_setex :: "store \<Rightarrow> string \<Rightarrow> nat \<Rightarrow> pyval \<Rightarrow> store" where
  "redis_setex s k ttl v = s(k \<mapsto> (v, ttl))"

definition redis_delete :: "store \<Rightarrow> string \<Rightarrow> store" where
  "redis_delete s k = s(k := None)"

section \<open>ApplicationQueueManager\<close>

text \<open>
  The manager's fields, its queue (\<open>None\<close> is the end-of-stream sentinel that
  \<open>stop_listen\<close> puts) and the external store it talks to.
\<close>

record manager =
  task_id :: string
  user_id :: string
  invoke_from :: invoke_from
  conversation_id :: string
  app_mode :: string
  message_id :: string
  q :: "queue_message option list"
  redis :: store

definition generate_task_belong_cache_key :: "string \<Rightarrow> string" where
  "generate_task_belong_cache_key tid = ''generate_task_belong:'' @ tid"

definition generate_stopped_cache_key :: "string \<Rightarrow> string" where
  "generate_stopped_cache_key tid = ''generate_task_stopped:'' @ tid"

definition user_prefix :: "invoke_from \<Rightarrow> string" where
  "user_prefix f = (if f \<in> set [EXPLORE, DEBUGGER] then ''account'' else ''end-user'')"

definition prefixed_identity :: "invoke_from \<Rightarrow> string \<Rightarrow> string" where
  "prefixed_identity f uid = user_prefix f @ ''-'' @ uid"

text \<open>\<open>__init__\<close>: refuses an empty user id, records the owner with TTL 1800, starts an empty queue.\<close>

definition init :: "store \<Rightarrow> string \<Rightarrow> string \<Rightarrow> invoke_from \<Rightarrow> string \<Rightarrow> string \<Rightarrow> string
    \<Rightarrow> exc + manager" where
  "init s tid uid f cid mode mid =
     (if uid = [] then Inl (ValueError ''user is required'')
      else Inr \<lparr> task_id = tid, user_id = uid, invoke_from = f, conversation_id = cid,
                 app_mode = mode, message_id = mid, q = [],
                 redis = redis_setex s (generate_task_belong_cache_key tid) 1800
                           (PStr (prefixed_identity f uid)) \<rparr>)"

definition stop_listen :: "manager \<Rightarrow> manager" where
  "stop_listen m = m\<lparr> q := q m @ [None] \<rparr>"

text \<open>\<open>set_stop_flag\<close>: two early returns, then the flag with TTL 600.\<close>

definition set_stop_flag :: "manager \<Rightarrow> manager" where
  "set_stop_flag m =
     (case redis_get (redis m) (generate_task_belong_cache_key (task_id m)) of
        None \<Rightarrow> m
      | Some result \<Rightarrow>
          if result \<noteq> PStr (prefixed_identity (invoke_from m) (user_id m)) then m
          else m\<lparr> redis := redis_setex (redis m) (generate_stopped_cache_key (task_id m)) 600 (PInt 1) \<rparr>)"

text \<open>\<open>_is_stopped\<close>: reads the flag and deletes it when present.\<close>

definition is_stopped :: "manager \<Rightarrow> bool \<times> manager" where
  "is_stopped m =
     (case redis_get (redis m) (generate_stopped_cache_key (task_id m)) of
        Some result \<Rightarrow> (True, m\<lparr> redis := redis_delete (redis m) (generate_stopped_cache_key (task_id m)) \<rparr>)
      | None \<Rightarrow> (False, m))"

subsection \<open>The scan for SQLAlchemy models\<close>

text \<open>
  Modelled from the spec: \<open>event.dict()\<close> of an event (pydantic's rendering of a model as a
  dictionary of its fields, nested models rendered too), for the event classes that are not
  in the source tree. The payload-free \<open>Ping\<close> and \<open>Stop\<close> render as the empty dictionary.
\<close>

definition role_name :: "prompt_message_role \<Rightarrow> string" where
  "role_name r = (case r of USER \<Rightarrow> ''user'' | ASSISTANT \<Rightarrow> ''assistant''
                   | SYSTEM \<Rightarrow> ''system'' | TOOL \<Rightarrow> ''tool'')"

definition content_part_dict :: "prompt_message_content \<Rightarrow> pyval" where
  "content_part_dict c = (case c of
       TextPromptMessageContent d \<Rightarrow> PDict [(''type'', PStr ''text''), (''data'', PStr d)]
     | ImagePromptMessageContent d det \<Rightarrow>
         PDict [(''type'', PStr ''image''), (''data'', PStr d), (''detail'', PStr det)])"

definition prompt_message_dict :: "prompt_message \<Rightarrow> pyval" where
  "prompt_message_dict pm =
     PDict [(''role'', PStr (role_name (role pm))),
            (''content'', (case content pm of ContentStr s \<Rightarrow> PStr s
                            | ContentList cs \<Rightarrow> PList (map content_part_dict cs)))]"

definition usage_dict :: "llm_usage \<Rightarrow> pyval" where
  "usage_dict u =
     PDict [(''prompt_tokens'', PInt (prompt_tokens u)),
            (''prompt_unit_price'', PDec (prompt_unit_price u)),
            (''prompt_price_unit'', PDec (prompt_price_unit u)),
            (''prompt_price'', PDec (prompt_price u)),
            (''completion_tokens'', PInt (completion_tokens u)),
            (''completion_unit_price'', PDec (completion_unit_price u)),
            (''completion_price_unit'', PDec (completion_price_unit u)),
            (''completion_price'', PDec (completion_price u)),
            (''total_tokens'', PInt (total_tokens u)),
            (''total_price'', PDec (total_price u)),
            (''currency'', PStr (currency u))]"

definition llm_result_dict :: "llm_result \<Rightarrow> pyval" where
  "llm_result_dict r =
     PDict [(''model'', PStr (model r)),
            (''prompt_messages'', PList (map prompt_message_dict (prompt_messages r))),
            (''message'', PDict [(''role'', PStr ''assistant''), (''content'', PStr (message_text r))]),
            (''usage'', usage_dict (usage r))]"

definition chunk_dict :: "llm_result_chunk \<Rightarrow> pyval" where
  "chunk_dict c =
     PDict [(''model'', PStr (chunk_model c)),
            (''prompt_messages'', PList (map prompt_message_dict (chunk_prompt_messages c))),
            (''delta'', PDict [(''message'', PDict [(''role'', PStr ''assistant''),
                 (''content'', (case delta_text c of None \<Rightarrow> PNone | Some t \<Rightarrow> PStr t))])])]"

fun event_dict :: "queue_event \<Rightarrow> pyval" where
  "event_dict QueuePingEvent = PDict []"
| "event_dict QueueStopEvent = PDict []"
| "event_dict (QueueErrorEvent e) = PDict [(''error'', PExc e)]"
| "event_dict (QueueAgentThoughtEvent i) = PDict [(''agent_thought_id'', PStr i)]"
| "event_dict (QueueMessageEndEvent r) = PDict [(''llm_result'', llm_result_dict r)]"
| "event_dict (QueueRetrieverResourcesEvent rs) = PDict [(''retriever_resources'', PList rs)]"
| "event_dict (QueueMessageReplaceEvent t) = PDict [(''text'', PStr t)]"
| "event_dict (QueueMessageEvent c) = PDict [(''chunk'', chunk_dict c)]"

text \<open>
  The argument of \<open>_check_for_sqlalchemy_models\<close> is an event at the call in \<open>publish\<close> and
  a plain value at the recursive calls. Only an event has a \<open>dict\<close> method; on any other
  object the attribute lookup raises \<open>AttributeError\<close>.
\<close>

datatype pyobj = Event queue_event | Value pyval

fun dict_method :: "pyobj \<Rightarrow> exc + pyval" where
  "dict_method (Event e) = Inr (event_dict e)"
| "dict_method (Value v) = Inl (AttributeError ''object has no attribute dict'')"

fun is_sa_model :: "pyval \<Rightarrow> bool" where
  "is_sa_model (PSaModel n) = True"
| "is_sa_model v = False"

text \<open>A \<open>for\<close> loop over calls without a result: the first exception ends it.\<close>

fun first_error :: "(exc + unit) list \<Rightarrow> exc + unit" where
  "first_error [] = Inr ()"
| "first_error (Inl e # rs) = Inl e"
| "first_error (Inr u # rs) = first_error rs"

function check_for_sqlalchemy_models :: "pyobj \<Rightarrow> exc + unit" where
  "check_for_sqlalchemy_models obj =
     (case dict_method obj of
        Inl e \<Rightarrow> Inl e
      | Inr data \<Rightarrow>
          (case data of
             PDict kvs \<Rightarrow> first_error (map (\<lambda>kv. check_for_sqlalchemy_models (Value (snd kv))) kvs)
           | PList items \<Rightarrow> first_error (map (\<lambda>item. check_for_sqlalchemy_models (Value item)) items)
           | other \<Rightarrow>
               if is_sa_model other
               then Inl (TypeError ''Critical Error: Passing SQLAlchemy Model instances that cause thread safety issues is not allowed.'')
               else Inr ()))"
  by pat_completeness auto
termination
  by (relation "measure (\<lambda>obj. case obj of Event e \<Rightarrow> 1 | Value v \<Rightarrow> 0)")
     (auto elim: dict_method.elims)

declare check_for_sqlalchemy_models.simps [simp del]

lemma check_value:
  "check_for_sqlalchemy_models (Value v) = Inl (AttributeError ''object has no attribute dict'')"
  by (simp add: check_for_sqlalchemy_models.simps)

lemma check_event:
  "check_for_sqlalchemy_models (Event ev) =
     (if ev = QueuePingEvent \<or> ev = QueueStopEvent then Inr ()
      else Inl (AttributeError ''object has no attribute dict''))"
  by (cases ev) (simp_all add: check_for_sqlalchemy_models.simps [of "Event _"] check_value)

subsection \<open>publish, stop_listen and the helpers built on them\<close>

text \<open>
  \<open>publish\<close>: the scan, the envelope, the put, and the exception for a \<open>Stop\<close> event, which
  is raised after the put. The result is the exception raised, if any, and the manager.
\<close>

definition envelope :: "manager \<Rightarrow> queue_event \<Rightarrow> queue_message" where
  "envelope m ev = \<lparr> qm_task_id = task_id m, qm_message_id = message_id m,
       qm_conversation_id = conversation_id m, qm_app_mode = app_mode m, qm_event = ev \<rparr>"

definition publish :: "manager \<Rightarrow> queue_event \<Rightarrow> exc option \<times> manager" where
  "publish m ev =
     (case check_for_sqlalchemy_models (Event ev) of
        Inl e \<Rightarrow> (Some e, m)
      | Inr u \<Rightarrow>
          (let message = envelope m ev;
               m' = m\<lparr> q := q m @ [Some message] \<rparr>
           in if ev = QueueStopEvent then (Some ConversationTaskStoppedException, m')
              else (None, m')))"

text \<open>A call followed by \<open>stop_listen\<close>, which an exception in the call skips.\<close>

definition then_stop_listen :: "exc option \<times> manager \<Rightarrow> exc option \<times> manager" where
  "then_stop_listen r = (case r of (Some e, m) \<Rightarrow> (Some e, m) | (None, m) \<Rightarrow> (None, stop_listen m))"

definition publish_chunk_message :: "manager \<Rightarrow> llm_result_chunk \<Rightarrow> exc option \<times> manager" where
  "publish_chunk_message m chunk = publish m (QueueMessageEvent chunk)"

definition publish_message_replace :: "manager \<Rightarrow> string \<Rightarrow> exc option \<times> manager" where
  "publish_message_replace m t = publish m (QueueMessageReplaceEvent t)"

definition publish_retriever_resources :: "manager \<Rightarrow> pyval list \<Rightarrow> exc option \<times> manager" where
  "publish_retriever_resources m rs = publish m (QueueRetrieverResourcesEvent rs)"

definition publish_message_end :: "manager \<Rightarrow> llm_result \<Rightarrow> exc option \<times> manager" where
  "publish_message_end m r = then_stop_listen (publish m (QueueMessageEndEvent r))"

definition publish_error :: "manager \<Rightarrow> exc \<Rightarrow> exc option \<times> manager" where
  "publish_error m e = then_stop_listen (publish m (QueueErrorEvent e))"

subsection \<open>listen\<close>

text \<open>
  The \<open>finally\<close> block of one iteration of the loop in \<open>listen\<close>, from the countdown before
  the decrement: the exception that leaves the block, if any, the manager, and the countdown
  after the decrement. \<open>or\<close> short-circuits, so \<open>_is_stopped\<close> runs only while the countdown
  is positive. An exception raised by \<open>publish\<close> leaves the block at once.
\<close>

definition publish_ping :: "manager \<Rightarrow> int \<Rightarrow> exc option \<times> manager \<times> int" where
  "publish_ping m t =
     (if t > 0 \<and> t mod 10 = 0
      then (case publish m QueuePingEvent of (r, m') \<Rightarrow> (r, m', t))
      else (None, m, t))"

definition listen_finally :: "manager \<Rightarrow> int \<Rightarrow> exc option \<times> manager \<times> int" where
  "listen_finally m listen_timeout =
     (let t = listen_timeout - 1;
          (stopped, m1) = (if t \<le> 0 then (True, m) else is_stopped m)
      in if stopped
         then (case publish m1 QueueStopEvent of
                 (Some e, m2) \<Rightarrow> (Some e, m2, t)
               | (None, m2) \<Rightarrow> publish_ping (stop_listen m2) t)
         else publish_ping m1 t)"

text \<open>
  What the other threads do to the shared queue and store while the listener runs: the
  producer publishes or stops the queue, and a stop request comes from a requester with an
  identity of its own. An exception of \<open>publish\<close> goes to the producer; the listener sees
  the queue only.
\<close>

datatype action =
    ProducerPublish queue_event
  | ProducerStopListen
  | ProducerPublishMessageEnd llm_result
  | RequestStop string invoke_from

fun run_action :: "action \<Rightarrow> manager \<Rightarrow> manager" where
  "run_action (ProducerPublish ev) m = snd (publish m ev)"
| "run_action ProducerStopListen m = stop_listen m"
| "run_action (ProducerPublishMessageEnd r) m = snd (publish_message_end m r)"
| "run_action (RequestStop uid f) m =
     m\<lparr> redis := redis (set_stop_flag (m\<lparr> user_id := uid, invoke_from := f \<rparr>)) \<rparr>"

definition run_actions :: "action list \<Rightarrow> manager \<Rightarrow> manager" where
  "run_actions as m = fold run_action as m"

lemma publish_stop_raises: "fst (publish m QueueStopEvent) \<noteq> None"
  by (simp add: publish_def check_event)

lemma listen_finally_continues:
  assumes "listen_finally m lt = (None, m', t)"
  shows "t = lt - 1 \<and> 0 < t"
proof -
  have stop: "\<And>m1. \<exists>e m2. publish m1 QueueStopEvent = (Some e, m2)"
  proof -
    fix m1
    obtain r m2 where p: "publish m1 QueueStopEvent = (r, m2)" by (cases "publish m1 QueueStopEvent")
    with publish_stop_raises [of m1] obtain e where "r = Some e" by (cases r) auto
    with p show "\<exists>e m2. publish m1 QueueStopEvent = (Some e, m2)" by blast
  qed
  show ?thesis
  proof (cases "lt - 1 \<le> 0")
    case True
    from stop [of m] obtain e m2 where "publish m QueueStopEvent = (Some e, m2)" by blast
    with True assms show ?thesis by (simp add: listen_finally_def Let_def)
  next
    case False
    obtain b m1 where s: "is_stopped m = (b, m1)" by (cases "is_stopped m")
    from stop [of m1] obtain e m2 where p: "publish m1 QueueStopEvent = (Some e, m2)" by blast
    from False s p assms show ?thesis
      by (cases b) (auto simp: listen_finally_def Let_def publish_ping_def split: if_splits prod.splits)
  qed
qed

text \<open>
  The generator \<open>listen\<close> from a countdown: one iteration takes the head of the queue (an
  empty queue is \<open>queue.Empty\<close> after the timeout), runs the \<open>finally\<close> block, and goes on
  unless the sentinel was taken or an exception left the block. The result is the messages
  yielded in order, the exception that ended the generator (\<open>None\<close>: it returned), and the
  manager, for a consumer that asks for the next message every time. Each entry of the
  schedule is what the other threads do before one iteration's \<open>get\<close>; after the last
  entry they do nothing.
\<close>

function listen_loop :: "manager \<Rightarrow> int \<Rightarrow> action list list
    \<Rightarrow> queue_message list \<times> exc option \<times> manager" where
  "listen_loop m listen_timeout sched =
     (let m0 = run_actions (case sched of [] \<Rightarrow> [] | a # rest \<Rightarrow> a) m
      in case q m0 of
           [] \<Rightarrow>
             (case listen_finally m0 listen_timeout of
                (Some e, m1, t) \<Rightarrow> ([], Some e, m1)
              | (None, m1, t) \<Rightarrow> listen_loop m1 t (tl sched))
         | None # qs \<Rightarrow>
             (case listen_finally (m0\<lparr> q := qs \<rparr>) listen_timeout of
                (Some e, m1, t) \<Rightarrow> ([], Some e, m1)
              | (None, m1, t) \<Rightarrow> ([], None, m1))
         | Some message # qs \<Rightarrow>
             (case listen_finally (m0\<lparr> q := qs \<rparr>) listen_timeout of
                (Some e, m1, t) \<Rightarrow> ([message], Some e, m1)
              | (None, m1, t) \<Rightarrow>
                  (case listen_loop m1 t (tl sched) of (ys, r, m2) \<Rightarrow> (message # ys, r, m2))))"
  by pat_completeness auto
termination
  by (relation "measure (\<lambda>(m, t, sched). nat t)")
     (auto dest!: listen_finally_continues sym [of "(None, _, _)"])

declare listen_loop.simps [simp del]

definition listen :: "manager \<Rightarrow> action list list \<Rightarrow> queue_message list \<times> exc option \<times> manager" where
  "listen m sched = listen_loop m 600 sched"

section \<open>GenerateTaskPipeline\<close>

text \<open>
  \<open>TaskState\<close>: the accumulated result and the metadata dictionary.
\<close>

record task_state =
  llm_result :: llm_result
  metadata :: "(string \<times> pyval) list"

text \<open>
  Modelled from the spec: the \<open>Message\<close> and \<open>MessageAgentThought\<close> rows of \<open>models.model\<close> are
  not in the source tree; these are the columns the pipeline reads and writes. The latency
  column, a difference of two clock readings, is left out.
\<close>

record message_row =
  msg_id :: string
  msg_created_at :: int
  msg_message :: "pyval list"
  msg_message_tokens :: int
  msg_message_unit_price :: rat
  msg_message_price_unit :: rat
  msg_answer :: string
  msg_answer_tokens :: int
  msg_answer_unit_price :: rat
  msg_answer_price_unit :: rat
  msg_total_price :: rat

record agent_thought =
  at_id :: string
  at_position :: int
  at_thought :: string
  at_tool :: string
  at_tool_input :: string

text \<open>
  What the pipeline is constructed with and never changes: the identifiers of the generate
  entity and the conversation, the model configuration, and the collaborators it calls
  (token counting and usage of the model instance, \<open>PromptTemplateParser\<close>, the query for an
  agent thought), taken as parameters.
\<close>

record pipeline_config =
  entity_task_id :: string
  entity_conversation_id :: "string option"
  model_config_model :: string
  model_config_mode :: string
  conversation_mode :: string
  conversation_row_id :: string
  get_num_tokens :: "prompt_message list \<Rightarrow> int"
  calc_response_usage :: "int \<Rightarrow> int \<Rightarrow> llm_usage"
  remove_template_variables :: "string \<Rightarrow> string"
  query_agent_thought :: "string \<Rightarrow> agent_thought option"

text \<open>
  The pipeline's mutable state: the task state, the message row, and the effects of
  \<open>_save_message\<close> on the outside: the rows committed by \<open>db.session.commit()\<close> and the
  \<open>message_was_created\<close> notifications sent (the row and \<open>is_first_message\<close>), in order.
\<close>

record pipeline =
  task_state :: task_state
  message :: message_row
  commits :: "message_row list"
  notifications :: "(message_row \<times> bool) list"

definition zero_usage :: llm_usage where
  "zero_usage = \<lparr> prompt_tokens = 0, prompt_unit_price = 0, prompt_price_unit = 0, prompt_price = 0,
      completion_tokens = 0, completion_unit_price = 0, completion_price_unit = 0,
      completion_price = 0, total_tokens = 0, total_price = 0, currency = [] \<rparr>"

text \<open>\<open>__init__\<close>: an empty result for the configured model and empty metadata.\<close>

definition init_pipeline :: "pipeline_config \<Rightarrow> message_row \<Rightarrow> pipeline" where
  "init_pipeline cfg msg =
     \<lparr> task_state = \<lparr> llm_result = \<lparr> model = model_config_model cfg, prompt_messages = [],
                                       message_text = [], usage = zero_usage \<rparr>,
                      metadata = [] \<rparr>,
       message = msg, commits = [], notifications = [] \<rparr>"

subsection \<open>Dictionaries and strings\<close>

text \<open>\<open>d[k] = v\<close> on a dictionary in insertion order.\<close>

fun dict_set :: "string \<Rightarrow> pyval \<Rightarrow> (string \<times> pyval) list \<Rightarrow> (string \<times> pyval) list" where
  "dict_set k v [] = [(k, v)]"
| "dict_set k v ((k', v') # kvs) = (if k' = k then (k, v) # kvs else (k', v') # dict_set k v kvs)"

text \<open>
  \<open>str.strip()\<close>. A character of a \<open>string\<close> here is a code point below 256; the
  whitespace characters of Python among them are the ASCII ones, U+0085 and U+00A0.
\<close>

definition is_space :: "char \<Rightarrow> bool" where
  "is_space c = (of_char c \<in> set [9, 10, 11, 12, 13, 28, 29, 30, 31, 32, 133, 160 :: nat])"

definition strip :: "string \<Rightarrow> string" where
  "strip s = rev (dropWhile is_space (rev (dropWhile is_space s)))"

subsection \<open>_prompt_messages_to_prompt_for_saving and _save_message\<close>

fun file_of :: "prompt_message_content \<Rightarrow> pyval list" where
  "file_of (TextPromptMessageContent d) = []"
| "file_of (ImagePromptMessageContent d det) =
     [PDict [(''type'', PStr ''image''),
             (''data'', PStr (take 10 d @ ''...[TRUNCATED]...'' @ drop (length d - 10) d)),
             (''detail'', PStr det)]]"

fun text_of :: "prompt_message_content \<Rightarrow> string" where
  "text_of (TextPromptMessageContent d) = d"
| "text_of (ImagePromptMessageContent d det) = []"

text \<open>One prompt message of a chat model: nothing for a role that is skipped.\<close>

definition chat_prompt :: "prompt_message \<Rightarrow> pyval list" where
  "chat_prompt pm =
     (case (case role pm of USER \<Rightarrow> Some ''user'' | ASSISTANT \<Rightarrow> Some ''assistant''
              | SYSTEM \<Rightarrow> Some ''system'' | TOOL \<Rightarrow> None) of
        None \<Rightarrow> []
      | Some r \<Rightarrow>
          (case content pm of
             ContentList cs \<Rightarrow>
               [PDict [(''role'', PStr r), (''text'', PStr (concat (map text_of cs))),
                       (''files'', PList (concat (map file_of cs)))]]
           | ContentStr t \<Rightarrow>
               [PDict [(''role'', PStr r), (''text'', PStr t), (''files'', PList [])]]))"

definition content_value :: "message_content \<Rightarrow> pyval" where
  "content_value c = (case c of ContentStr t \<Rightarrow> PStr t
                       | ContentList cs \<Rightarrow> PList (map content_part_dict cs))"

text \<open>For any other model mode the first prompt message is read, which fails on an empty list.\<close>

definition prompt_messages_to_prompt_for_saving ::
    "pipeline_config \<Rightarrow> prompt_message list \<Rightarrow> exc + pyval list" where
  "prompt_messages_to_prompt_for_saving cfg pms =
     (if model_config_mode cfg = ''chat'' then Inr (concat (map chat_prompt pms))
      else (case pms of
              [] \<Rightarrow> Inl (IndexError ''list index out of range'')
            | pm # rest \<Rightarrow> Inr [PDict [(''role'', PStr ''user''), (''text'', content_value (content pm))]]))"

text \<open>
  \<open>_save_message\<close>: the prompts come from the task state, the figures and the answer from
  the result passed in; then the commit and the notification.
\<close>

definition save_message :: "pipeline_config \<Rightarrow> pipeline \<Rightarrow> llm_result \<Rightarrow> exc + pipeline" where
  "save_message cfg p r =
     (let u = usage r
      in case prompt_messages_to_prompt_for_saving cfg (prompt_messages (llm_result (task_state p))) of
           Inl e \<Rightarrow> Inl e
         | Inr prompts \<Rightarrow>
             (let row = (message p)\<lparr>
                    msg_message := prompts,
                    msg_message_tokens := prompt_tokens u,
                    msg_message_unit_price := prompt_unit_price u,
                    msg_message_price_unit := prompt_price_unit u,
                    msg_answer := (if message_text r \<noteq> []
                                   then remove_template_variables cfg (strip (message_text r)) else []),
                    msg_answer_tokens := completion_tokens u,
                    msg_answer_unit_price := completion_unit_price u,
                    msg_answer_price_unit := completion_price_unit u,
                    msg_total_price := total_price u \<rparr>
              in Inr (p\<lparr> message := row,
                        commits := commits p @ [row],
                        notifications := notifications p @ [(row, entity_conversation_id cfg = None)] \<rparr>)))"

subsection \<open>Responses\<close>

text \<open>
  What the streaming generator yields: \<open>Response d\<close> is \<open>self._yield_response(d)\<close> for the
  response dictionary \<open>d\<close> (the rendering of \<open>d\<close> as a line of JSON is not modelled),
  \<open>Text\<close> is a bare string.
\<close>

datatype frame = Response "(string \<times> pyval) list" | Text string

definition with_conversation_id ::
    "pipeline_config \<Rightarrow> (string \<times> pyval) list \<Rightarrow> (string \<times> pyval) list" where
  "with_conversation_id cfg response =
     (if conversation_mode cfg = ''chat''
      then dict_set ''conversation_id'' (PStr (conversation_row_id cfg)) response
      else response)"

definition handle_chunk :: "pipeline_config \<Rightarrow> pipeline \<Rightarrow> string \<Rightarrow> (string \<times> pyval) list" where
  "handle_chunk cfg p t =
     with_conversation_id cfg
       [(''event'', PStr ''message''),
        (''task_id'', PStr (entity_task_id cfg)),
        (''message_id'', PStr (msg_id (message p))),
        (''answer'', PStr t),
        (''created_at'', PInt (msg_created_at (message p)))]"

text \<open>
  \<open>str(e)\<close> and \<open>getattr(e, 'description', None)\<close> of an exception object: the text it
  was made with, which \<open>KeyError\<close> shows quoted; \<open>OtherError\<close> alone has a description.
\<close>

fun exc_str :: "exc \<Rightarrow> string" where
  "exc_str (ValueError t) = t"
| "exc_str (TypeError t) = t"
| "exc_str (AttributeError t) = t"
| "exc_str (KeyError t) = [CHR 0x27] @ t @ [CHR 0x27]"
| "exc_str (IndexError t) = t"
| "exc_str ConversationTaskStoppedException = []"
| "exc_str (InvokeAuthorizationError t) = t"
| "exc_str (InvokeError t) = t"
| "exc_str (Exception t) = t"
| "exc_str (OtherError d t) = t"

fun exc_description :: "exc \<Rightarrow> string option" where
  "exc_description (OtherError d t) = d"
| "exc_description e = None"

text \<open>\<open>_handle_error\<close>: the exception to raise for the error of an \<open>Error\<close> event.\<close>

fun handle_error :: "exc \<Rightarrow> exc" where
  "handle_error (InvokeAuthorizationError t) = InvokeAuthorizationError ''Incorrect API key provided''"
| "handle_error (InvokeError t) = InvokeError t"
| "handle_error (ValueError t) = ValueError t"
| "handle_error e = Exception (case exc_description e of Some d \<Rightarrow> d | None \<Rightarrow> exc_str e)"

subsection \<open>_process_stream_response\<close>

text \<open>
  The terminal branch: a \<open>MessageEnd\<close> replaces the accumulated result, a \<open>Stop\<close>
  has the usage computed from the token counts of the prompt and of the assembled message.
\<close>

definition terminal_result :: "pipeline_config \<Rightarrow> pipeline \<Rightarrow> queue_event \<Rightarrow> pipeline" where
  "terminal_result cfg p ev =
     (case ev of
        QueueMessageEndEvent r \<Rightarrow> p\<lparr> task_state := (task_state p)\<lparr> llm_result := r \<rparr> \<rparr>
      | other \<Rightarrow>
          (let res = llm_result (task_state p);
               prompt_tokens = get_num_tokens cfg (prompt_messages res);
               completion_tokens = get_num_tokens cfg
                  [\<lparr> role = ASSISTANT, content = ContentStr (message_text res) \<rparr>]
           in p\<lparr> task_state := (task_state p)\<lparr> llm_result :=
                  res\<lparr> usage := calc_response_usage cfg prompt_tokens completion_tokens \<rparr> \<rparr> \<rparr>))"

definition message_end_response :: "pipeline_config \<Rightarrow> pipeline \<Rightarrow> (string \<times> pyval) list" where
  "message_end_response cfg p =
     (let response = with_conversation_id cfg
            [(''event'', PStr ''message_end''),
             (''task_id'', PStr (entity_task_id cfg)),
             (''id'', PStr (msg_id (message p)))]
      in if metadata (task_state p) \<noteq> []
         then dict_set ''metadata'' (PDict (metadata (task_state p))) response
         else response)"

definition agent_thought_response ::
    "pipeline_config \<Rightarrow> pipeline \<Rightarrow> agent_thought \<Rightarrow> (string \<times> pyval) list" where
  "agent_thought_response cfg p a =
     with_conversation_id cfg
       [(''event'', PStr ''agent_thought''),
        (''id'', PStr (at_id a)),
        (''task_id'', PStr (entity_task_id cfg)),
        (''message_id'', PStr (msg_id (message p))),
        (''position'', PInt (at_position a)),
        (''thought'', PStr (at_thought a)),
        (''tool'', PStr (at_tool a)),
        (''tool_input'', PStr (at_tool_input a)),
        (''created_at'', PInt (msg_created_at (message p)))]"

definition message_replace_response ::
    "pipeline_config \<Rightarrow> pipeline \<Rightarrow> string \<Rightarrow> (string \<times> pyval) list" where
  "message_replace_response cfg p t =
     with_conversation_id cfg
       [(''event'', PStr ''message_replace''),
        (''task_id'', PStr (entity_task_id cfg)),
        (''message_id'', PStr (msg_id (message p))),
        (''answer'', PStr t),
        (''created_at'', PInt (msg_created_at (message p)))]"

definition ping_text :: string where
  "ping_text = ''event: ping'' @ [CHR 0x0A, CHR 0x0A]"

text \<open>
  The branch for \<open>Stop\<close> and \<open>MessageEnd\<close>: the result, \<open>_save_message\<close>, and the
  \<open>message_end\<close> response, which is yielded; the loop then goes on.
\<close>

definition terminal_branch ::
    "pipeline_config \<Rightarrow> pipeline \<Rightarrow> queue_event \<Rightarrow> pipeline \<times> frame list \<times> exc option" where
  "terminal_branch cfg p ev =
     (let p1 = terminal_result cfg p ev
      in case save_message cfg p1 (llm_result (task_state p1)) of
           Inl e \<Rightarrow> (p1, [], Some e)
         | Inr p2 \<Rightarrow> (p2, [Response (message_end_response cfg p2)], None))"

text \<open>
  The body of the \<open>for\<close> loop for one drained event: the pipeline afterwards, what is
  yielded, and the exception raised, if any.
\<close>

fun stream_event :: "pipeline_config \<Rightarrow> pipeline \<Rightarrow> queue_event \<Rightarrow> pipeline \<times> frame list \<times> exc option" where
  "stream_event cfg p (QueueErrorEvent e) = (p, [], Some (handle_error e))"
| "stream_event cfg p QueueStopEvent = terminal_branch cfg p QueueStopEvent"
| "stream_event cfg p (QueueMessageEndEvent r) = terminal_branch cfg p (QueueMessageEndEvent r)"
| "stream_event cfg p (QueueRetrieverResourcesEvent rs) =
     (p\<lparr> task_state := (task_state p)\<lparr>
            metadata := dict_set ''retriever_resources'' (PList rs) (metadata (task_state p)) \<rparr> \<rparr>,
      [], None)"
| "stream_event cfg p (QueueAgentThoughtEvent i) =
     (case query_agent_thought cfg i of
        Some a \<Rightarrow> (p, [Response (agent_thought_response cfg p a)], None)
      | None \<Rightarrow> (p, [], None))"
| "stream_event cfg p (QueueMessageEvent chunk) =
     (case delta_text chunk of
        None \<Rightarrow> (p, [], None)
      | Some t \<Rightarrow>
          (let res = llm_result (task_state p);
               res1 = (if prompt_messages res = []
                       then res\<lparr> prompt_messages := chunk_prompt_messages chunk \<rparr> else res);
               res2 = res1\<lparr> message_text := message_text res1 @ t \<rparr>;
               p' = p\<lparr> task_state := (task_state p)\<lparr> llm_result := res2 \<rparr> \<rparr>
           in (p', [Response (handle_chunk cfg p' t)], None)))"
| "stream_event cfg p (QueueMessageReplaceEvent t) =
     (p, [Response (message_replace_response cfg p t)], None)"
| "stream_event cfg p QueuePingEvent = (p, [Text ping_text], None)"

text \<open>
  The generator over what \<open>listen\<close> yields, and the way \<open>listen\<close> ended (an exception of the
  listener comes out of the \<open>for\<close> statement). The loop has no \<open>break\<close> and no \<open>return\<close>: it
  ends when the listener ends or an exception is raised.
\<close>

fun process_stream_response ::
    "pipeline_config \<Rightarrow> pipeline \<Rightarrow> queue_message list \<Rightarrow> exc option
      \<Rightarrow> pipeline \<times> frame list \<times> exc option" where
  "process_stream_response cfg p [] ended = (p, [], ended)"
| "process_stream_response cfg p (msg # rest) ended =
     (case stream_event cfg p (qm_event msg) of
        (p1, fs, Some e) \<Rightarrow> (p1, fs, Some e)
      | (p1, fs, None) \<Rightarrow>
          (case process_stream_response cfg p1 rest ended of
             (p2, fs2, r) \<Rightarrow> (p2, fs @ fs2, r)))"

subsection \<open>_process_blocking_response\<close>

text \<open>
  The \<open>MessageEnd\<close> branch: save, build the response, and with non-empty metadata assign
  through \<open>response['data']\<close>, a key the response was never given.
\<close>

definition blocking_response ::
    "pipeline_config \<Rightarrow> pipeline \<Rightarrow> llm_result \<Rightarrow> exc + (string \<times> pyval) list" where
  "blocking_response cfg p r =
     (let response = with_conversation_id cfg
            [(''event'', PStr ''message''),
             (''task_id'', PStr (entity_task_id cfg)),
             (''id'', PStr (msg_id (message p))),
             (''mode'', PStr (conversation_mode cfg)),
             (''answer'', PStr (message_text r)),
             (''metadata'', PDict []),
             (''created_at'', PInt (msg_created_at (message p)))]
      in if metadata (task_state p) \<noteq> []
         then (case map_of response ''data'' of
                 None \<Rightarrow> Inl (KeyError ''data'')
               | Some (PDict d) \<Rightarrow>
                   Inr (dict_set ''data''
                          (PDict (dict_set ''metadata'' (PDict (metadata (task_state p))) d)) response)
               | Some other \<Rightarrow> Inl (TypeError ''object does not support item assignment''))
         else Inr response)"

text \<open>
  The function over what \<open>listen\<close> yields and the way it ended: the pipeline afterwards and
  either the exception raised or the value returned, which is \<open>None\<close> when the loop ends
  without a \<open>MessageEnd\<close>.
\<close>

fun process_blocking_response ::
    "pipeline_config \<Rightarrow> pipeline \<Rightarrow> queue_message list \<Rightarrow> exc option
      \<Rightarrow> pipeline \<times> (exc + (string \<times> pyval) list option)" where
  "process_blocking_response cfg p [] None = (p, Inr None)"
| "process_blocking_response cfg p [] (Some e) = (p, Inl e)"
| "process_blocking_response cfg p (msg # rest) ended =
     (case qm_event msg of
        QueueErrorEvent e \<Rightarrow> (p, Inl (handle_error e))
      | QueueRetrieverResourcesEvent rs \<Rightarrow>
          process_blocking_response cfg
            (p\<lparr> task_state := (task_state p)\<lparr>
                 metadata := dict_set ''retriever_resources'' (PList rs) (metadata (task_state p)) \<rparr> \<rparr>)
            rest ended
      | QueueMessageEndEvent r \<Rightarrow>
          (case save_message cfg p r of
             Inl e \<Rightarrow> (p, Inl e)
           | Inr p1 \<Rightarrow>
               (case blocking_response cfg p1 r of
                  Inl e \<Rightarrow> (p1, Inl e)
                | Inr response \<Rightarrow> (p1, Inr (Some response))))
      | other \<Rightarrow> process_blocking_response cfg p rest ended)"

subsection \<open>process\<close>

datatype process_result =
    Blocking "pipeline \<times> (exc + (string \<times> pyval) list option)"
  | Streaming "pipeline \<times> frame list \<times> exc option"

definition process ::
    "pipeline_config \<Rightarrow> pipeline \<Rightarrow> bool \<Rightarrow> queue_message list \<Rightarrow> exc option \<Rightarrow> process_result" where
  "process cfg p stream msgs ended =
     (if stream then Streaming (process_stream_response cfg p msgs ended)
      else Blocking (process_blocking_response cfg p msgs ended))"

section \<open>Concrete tasks\<close>

definition example_manager :: manager where
  "example_manager =
     \<lparr> task_id = ''t1'', user_id = ''u1'', invoke_from = WEB_APP, conversation_id = ''c1'',
       app_mode = ''chat'', message_id = ''m1'', q = [],
       redis = [generate_task_belong_cache_key ''t1'' \<mapsto> (PStr ''end-user-u1'', 1800)] \<rparr>"

definition example_config :: pipeline_config where
  "example_config =
     \<lparr> entity_task_id = ''t1'', entity_conversation_id = None, model_config_model = ''gpt'',
       model_config_mode = ''chat'', conversation_mode = ''chat'', conversation_row_id = ''c1'',
       get_num_tokens = (\<lambda>pms. int (length pms)),
       calc_response_usage = (\<lambda>a b. zero_usage\<lparr> prompt_tokens := a, completion_tokens := b,
                                                    total_tokens := a + b \<rparr>),
       remove_template_variables = (\<lambda>t. t),
       query_agent_thought = (\<lambda>i. None) \<rparr>"

definition example_row :: message_row where
  "example_row =
     \<lparr> msg_id = ''m1'', msg_created_at = 1700000000, msg_message = [], msg_message_tokens = 0,
       msg_message_unit_price = 0, msg_message_price_unit = 0, msg_answer = [],
       msg_answer_tokens = 0, msg_answer_unit_price = 0, msg_answer_price_unit = 0,
       msg_total_price = 0 \<rparr>"

definition example_pipeline :: pipeline where
  "example_pipeline = init_pipeline example_config example_row"

definition chunk_of :: "string option \<Rightarrow> prompt_message list \<Rightarrow> queue_message" where
  "chunk_of t pms = envelope example_manager
     (QueueMessageEvent \<lparr> chunk_model = ''gpt'', chunk_prompt_messages = pms, delta_text = t \<rparr>)"

definition example_result :: llm_result where
  "example_result = \<lparr> model = ''gpt'', prompt_messages = [], message_text = ''done'',
                       usage = zero_usage \<rparr>"

definition cancelled_manager :: manager where
  "cancelled_manager = snd (snd (listen example_manager [[RequestStop ''u1'' WEB_APP]]))"

definition stop_at_tick_10 :: "action list list" where
  "stop_at_tick_10 = replicate 9 [] @ [[RequestStop ''u1'' WEB_APP]]"

section \<open>Properties of the queue manager\<close>

lemma publish_payload_raises:
  assumes "ev \<noteq> QueuePingEvent" and "ev \<noteq> QueueStopEvent"
  shows "publish m ev = (Some (AttributeError ''object has no attribute dict''), m)"
  using assms by (simp add: publish_def check_event)

lemma publish_ping_enqueues:
  "publish m QueuePingEvent = (None, m\<lparr> q := q m @ [Some (envelope m QueuePingEvent)] \<rparr>)"
  by (simp add: publish_def check_event)

lemma publish_stop_enqueues:
  "publish m QueueStopEvent =
     (Some ConversationTaskStoppedException, m\<lparr> q := q m @ [Some (envelope m QueueStopEvent)] \<rparr>)"
  by (simp add: publish_def check_event)

text \<open>
  The stop branch of the \<open>finally\<close> block: the \<open>Stop\<close> envelope is put, the exception of
  \<open>publish\<close> leaves the block, and neither \<open>stop_listen\<close> nor the \<open>Ping\<close> is reached.
\<close>

lemma listen_finally_stop_branch:
  assumes "lt - 1 \<le> 0 \<or> fst (is_stopped m)"
  shows "\<exists>m'. listen_finally m lt = (Some ConversationTaskStoppedException, m', lt - 1)
            \<and> q m' = q m @ [Some (envelope m QueueStopEvent)]"
  using assms
  by (auto simp: listen_finally_def publish_stop_enqueues is_stopped_def envelope_def
      split: prod.splits option.splits)

text \<open>
  An iteration that does not take the stop branch: a \<open>Ping\<close> is put exactly when the
  countdown after the decrement is a multiple of 10.
\<close>

lemma listen_finally_ping:
  assumes "0 < lt - 1" and "\<not> fst (is_stopped m)"
  shows "listen_finally m lt =
     (None, if (lt - 1) mod 10 = 0 then m\<lparr> q := q m @ [Some (envelope m QueuePingEvent)] \<rparr> else m, lt - 1)"
  using assms
  by (auto simp: listen_finally_def publish_ping_enqueues is_stopped_def publish_ping_def
      split: prod.splits option.splits)

lemma publish_no_sentinel: "None \<notin> set (q m) \<Longrightarrow> None \<notin> set (q (snd (publish m ev)))"
  by (auto simp: publish_def Let_def split: sum.splits)

lemma run_action_no_sentinel:
  assumes "None \<notin> set (q m)" and "a \<noteq> ProducerStopListen"
  shows "None \<notin> set (q (run_action a m))"
  using assms
  by (cases a) (auto simp: publish_no_sentinel publish_message_end_def then_stop_listen_def
        publish_payload_raises)

lemma run_actions_no_sentinel:
  assumes "None \<notin> set (q m)" and "ProducerStopListen \<notin> set as"
  shows "None \<notin> set (q (run_actions as m))"
  using assms unfolding run_actions_def
  by (induction as arbitrary: m) (auto simp: run_action_no_sentinel)

lemma listen_finally_no_sentinel:
  assumes "None \<notin> set (q m)"
  shows "None \<notin> set (q (fst (snd (listen_finally m lt))))"
proof (cases "lt - 1 \<le> 0 \<or> fst (is_stopped m)")
  case True
  from listen_finally_stop_branch [OF True] assms show ?thesis by auto
next
  case False
  with listen_finally_ping [of lt m] assms show ?thesis by auto
qed

text \<open>
  The generator returns only by taking the sentinel: while no thread calls \<open>stop_listen\<close>,
  every run ends with an exception, the timeout and the observed stop flag included.
\<close>

lemma listen_returns_only_by_sentinel:
  assumes "None \<notin> set (q m)" and "\<forall>as \<in> set sched. ProducerStopListen \<notin> set as"
  shows "fst (snd (listen_loop m t sched)) \<noteq> None"
  using assms
proof (induction m t sched rule: listen_loop.induct)
  case (1 m t sched)
  let ?as = "case sched of [] \<Rightarrow> [] | a # rest \<Rightarrow> a"
  let ?m0 = "run_actions ?as m"
  from "1.prems" have as: "ProducerStopListen \<notin> set ?as" by (cases sched) auto
  from "1.prems" have tl: "\<forall>as \<in> set (tl sched). ProducerStopListen \<notin> set as"
    by (cases sched) auto
  from run_actions_no_sentinel [OF "1.prems"(1) as] have m0: "None \<notin> set (q ?m0)" .
  show ?case
  proof (cases "q ?m0")
    case Nil
    obtain r m1 t' where f: "listen_finally ?m0 t = (r, m1, t')" by (cases "listen_finally ?m0 t")
    from listen_finally_no_sentinel [OF m0, of t] f have m1: "None \<notin> set (q m1)" by simp
    show ?thesis
    proof (cases r)
      case None
      from "1.IH"(1) f Nil None m1 tl
      have ih: "fst (snd (listen_loop m1 t' (tl sched))) \<noteq> None" by simp
      from f Nil None ih show ?thesis
        by (subst listen_loop.simps) (simp add: Let_def)
    next
      case (Some e)
      with f Nil show ?thesis by (subst listen_loop.simps) (simp add: Let_def)
    qed
  next
    case (Cons x qs)
    with m0 obtain message where x: "x = Some message" by (cases x) auto
    from m0 Cons have qs: "None \<notin> set (q (?m0\<lparr> q := qs \<rparr>))" by auto
    obtain r m1 t' where f: "listen_finally (?m0\<lparr> q := qs \<rparr>) t = (r, m1, t')"
      by (cases "listen_finally (?m0\<lparr> q := qs \<rparr>) t")
    from listen_finally_no_sentinel [OF qs, of t] f have m1: "None \<notin> set (q m1)" by simp
    show ?thesis
    proof (cases r)
      case None
      from "1.IH"(2) f Cons x None m1 tl
      have ih: "fst (snd (listen_loop m1 t' (tl sched))) \<noteq> None" by simp
      from f Cons x None ih show ?thesis
        by (subst listen_loop.simps) (auto simp: Let_def split: prod.splits)
    next
      case (Some e)
      with f Cons x show ?thesis by (subst listen_loop.simps) (simp add: Let_def)
    qed
  qed
qed

text \<open>
  C4. \<open>set_stop_flag\<close> writes the stop flag, with TTL 600, exactly when the ownership record
  of the task exists and equals the requester's prefixed identity (\<open>account-<id>\<close> for
  \<open>EXPLORE\<close> and \<open>DEBUGGER\<close>, \<open>end-user-<id>\<close> otherwise); the listener then observes the flag.
  When the record is absent or differs, nothing changes, and \<open>_is_stopped\<close> answers as it did
  before the request.
\<close>

theorem set_stop_flag_owner_only:
  "(redis_get (redis m) (generate_task_belong_cache_key (task_id m))
       = Some (PStr (prefixed_identity (invoke_from m) (user_id m)))
     \<longrightarrow> set_stop_flag m
           = m\<lparr> redis := (redis m)(generate_stopped_cache_key (task_id m) \<mapsto> (PInt 1, 600)) \<rparr>
         \<and> fst (is_stopped (set_stop_flag m)))
   \<and> (redis_get (redis m) (generate_task_belong_cache_key (task_id m))
       \<noteq> Some (PStr (prefixed_identity (invoke_from m) (user_id m)))
     \<longrightarrow> set_stop_flag m = m \<and> is_stopped (set_stop_flag m) = is_stopped m)
   \<and> prefixed_identity f uid =
       (if f = EXPLORE \<or> f = DEBUGGER then ''account-'' @ uid else ''end-user-'' @ uid)"
  by (auto simp: set_stop_flag_def is_stopped_def redis_get_def redis_setex_def
       prefixed_identity_def user_prefix_def split: option.splits)

theorem set_stop_flag_owner_only_witness:
  "redis (set_stop_flag example_manager) (generate_stopped_cache_key ''t1'') = Some (PInt 1, 600)
   \<and> fst (is_stopped (set_stop_flag example_manager))
   \<and> set_stop_flag (example_manager\<lparr> user_id := ''u2'' \<rparr>) = example_manager\<lparr> user_id := ''u2'' \<rparr>
   \<and> set_stop_flag (example_manager\<lparr> invoke_from := EXPLORE \<rparr>)
       = example_manager\<lparr> invoke_from := EXPLORE \<rparr>
   \<and> prefixed_identity EXPLORE ''u1'' = ''account-u1''"
  using set_stop_flag_owner_only [of example_manager EXPLORE "''u1''"]
    set_stop_flag_owner_only [of "example_manager\<lparr> user_id := ''u2'' \<rparr>"]
    set_stop_flag_owner_only [of "example_manager\<lparr> invoke_from := EXPLORE \<rparr>"]
  by (simp add: example_manager_def redis_get_def redis_setex_def set_stop_flag_def
        is_stopped_def generate_task_belong_cache_key_def generate_stopped_cache_key_def
        prefixed_identity_def user_prefix_def)

text \<open>
  C3, as claimed: once cancellation has taken effect, the producer's next \<open>publish\<close>, with any
  event, raises \<open>ConversationTaskStoppedException\<close>. It does not: the owner requests the stop,
  the listener observes the flag and puts the \<open>Stop\<close> envelope, and on the manager left behind
  \<open>publish\<close> of a \<open>Ping\<close> returns normally and \<open>publish_chunk_message\<close> ends in the
  \<open>AttributeError\<close> of the scan.
\<close>

theorem publish_after_stop_counterexample:
  "q cancelled_manager = [Some (envelope example_manager QueueStopEvent)]
   \<and> redis cancelled_manager (generate_stopped_cache_key ''t1'') = None
   \<and> fst (publish cancelled_manager QueuePingEvent) = None
   \<and> fst (publish_chunk_message cancelled_manager
             \<lparr> chunk_model = ''gpt'', chunk_prompt_messages = [], delta_text = Some ''Hel'' \<rparr>)
       = Some (AttributeError ''object has no attribute dict'')"
  by (simp add: cancelled_manager_def publish_chunk_message_def publish_payload_raises
        publish_ping_enqueues) code_simp

text \<open>
  C3, amended: \<open>publish\<close> raises \<open>ConversationTaskStoppedException\<close> exactly when the event it is
  given is a \<open>Stop\<close> event, after it has put the envelope; what the queue holds and whether a
  stop was observed play no part, and the publication of any other event never raises it.
\<close>

theorem publish_raises_stopped_iff_stop_event:
  "(fst (publish m ev) = Some ConversationTaskStoppedException) = (ev = QueueStopEvent)
   \<and> q (snd (publish m QueueStopEvent)) = q m @ [Some (envelope m QueueStopEvent)]"
  by (auto simp: publish_def check_event)

theorem publish_raises_stopped_iff_stop_event_witness:
  "fst (publish cancelled_manager QueuePingEvent) \<noteq> Some ConversationTaskStoppedException
   \<and> fst (publish cancelled_manager (QueueMessageReplaceEvent ''hi'')) \<noteq> Some ConversationTaskStoppedException
   \<and> fst (publish example_manager QueueStopEvent) = Some ConversationTaskStoppedException
   \<and> q (snd (publish example_manager QueueStopEvent)) = [Some (envelope example_manager QueueStopEvent)]"
  using publish_raises_stopped_iff_stop_event [of cancelled_manager QueuePingEvent]
    publish_raises_stopped_iff_stop_event [of cancelled_manager "QueueMessageReplaceEvent ''hi''"]
    publish_raises_stopped_iff_stop_event [of example_manager QueueStopEvent]
  by (simp add: example_manager_def)

text \<open>
  C5. The claim: an event without an externally owned record passes the scan and is put in
  the queue. The scan calls \<open>dict()\<close> on every value it descends into, so for
  \<open>QueueMessageReplaceEvent(text='hi')\<close> it raises \<open>AttributeError\<close> on the string, and the
  event is not put.
\<close>

theorem publish_plain_payload_raises:
  "publish example_manager (QueueMessageReplaceEvent ''hi'')
     = (Some (AttributeError ''object has no attribute dict''), example_manager)
   \<and> check_for_sqlalchemy_models (Event (QueueMessageReplaceEvent ''hi''))
     = Inl (AttributeError ''object has no attribute dict'')"
  by (simp add: publish_def check_event)

text \<open>
  The same happens with an SQLAlchemy model in the payload: the event is not put, and the
  exception is the \<open>AttributeError\<close> of the scan, not its \<open>TypeError\<close>.
\<close>

lemma publish_sa_payload_raises:
  "publish m (QueueRetrieverResourcesEvent [PDict [(''document'', PSaModel ''Document'')]])
     = (Some (AttributeError ''object has no attribute dict''), m)"
  by (simp add: publish_payload_raises)

text \<open>
  C2. The claim: when the stop flag is observed or the countdown reaches 0, the listener puts
  a \<open>Stop\<close> envelope and then the sentinel, the consumer drains the \<open>Stop\<close>, and the generator
  returns. In the run where the owner requests the stop before the first iteration, the
  generator yields nothing and ends with \<open>ConversationTaskStoppedException\<close>; the queue is
  left holding the \<open>Stop\<close> envelope and no sentinel.
\<close>

theorem listen_stop_request_raises:
  "fst (listen example_manager [[RequestStop ''u1'' WEB_APP]]) = []
   \<and> fst (snd (listen example_manager [[RequestStop ''u1'' WEB_APP]]))
       = Some ConversationTaskStoppedException
   \<and> q (snd (snd (listen example_manager [[RequestStop ''u1'' WEB_APP]])))
       = [Some (envelope example_manager QueueStopEvent)]"
  by code_simp

text \<open>
  The run in which nothing is ever published: 59 \<open>Ping\<close> envelopes are yielded, and at the
  600th iteration the generator ends with the exception, the \<open>Stop\<close> envelope left in the
  queue.
\<close>

lemma listen_timeout_raises:
  "map qm_event (fst (listen example_manager [])) = replicate 59 QueuePingEvent
   \<and> fst (snd (listen example_manager [])) = Some ConversationTaskStoppedException
   \<and> q (snd (snd (listen example_manager []))) = [Some (envelope example_manager QueueStopEvent)]"
  by code_simp

text \<open>
  C9. The claim: while the countdown is positive a \<open>Ping\<close> is published at every 10th
  iteration. In the run where the owner requests the stop during the 10th iteration, the
  countdown after the decrement is 590, the stop branch raises, and no \<open>Ping\<close> is put: the
  queue holds the \<open>Stop\<close> envelope only. Without the request the same iteration puts the
  \<open>Ping\<close>.
\<close>

theorem listen_no_ping_at_stop_tick:
  "fst (listen example_manager stop_at_tick_10) = []
   \<and> fst (snd (listen example_manager stop_at_tick_10)) = Some ConversationTaskStoppedException
   \<and> q (snd (snd (listen example_manager stop_at_tick_10)))
       = [Some (envelope example_manager QueueStopEvent)]
   \<and> fst (listen_finally (run_action (RequestStop ''u1'' WEB_APP) example_manager) 591)
       = Some ConversationTaskStoppedException
   \<and> q (fst (snd (listen_finally (run_action (RequestStop ''u1'' WEB_APP) example_manager) 591)))
       = [Some (envelope example_manager QueueStopEvent)]
   \<and> fst (listen_finally example_manager 591) = None
   \<and> q (fst (snd (listen_finally example_manager 591)))
       = [Some (envelope example_manager QueuePingEvent)]"
  by code_simp

section \<open>Properties of the task pipeline\<close>

text \<open>
  Terminal events, \<open>message_end\<close> frames, the delta text of a chunk event, and the two parts
  of the task state the properties speak of.
\<close>

fun terminal :: "queue_event \<Rightarrow> bool" where
  "terminal QueueStopEvent = True"
| "terminal (QueueMessageEndEvent r) = True"
| "terminal ev = False"

fun message_end_frame :: "frame \<Rightarrow> bool" where
  "message_end_frame (Response d) = (map_of d ''event'' = Some (PStr ''message_end''))"
| "message_end_frame (Text t) = False"

fun delta_of :: "queue_event \<Rightarrow> string" where
  "delta_of (QueueMessageEvent c) = (case delta_text c of None \<Rightarrow> [] | Some t \<Rightarrow> t)"
| "delta_of ev = []"

fun is_chunk :: "queue_event \<Rightarrow> bool" where
  "is_chunk (QueueMessageEvent c) = True"
| "is_chunk ev = False"

definition assembled_text :: "pipeline \<Rightarrow> string" where
  "assembled_text p = message_text (llm_result (task_state p))"

definition stored_prompt_messages :: "pipeline \<Rightarrow> prompt_message list" where
  "stored_prompt_messages p = prompt_messages (llm_result (task_state p))"

definition hello :: "queue_message list" where
  "hello = [chunk_of (Some ''Hel'') [], chunk_of (Some ''lo'') [], chunk_of (Some '' world'') []]"

definition first_prompt :: prompt_message where
  "first_prompt = \<lparr> role = USER, content = ContentStr ''first'' \<rparr>"

definition second_prompt :: prompt_message where
  "second_prompt = \<lparr> role = USER, content = ContentStr ''second'' \<rparr>"

text \<open>
  The \<open>MessageEnd\<close> result the blocking loop reaches: that of the first \<open>MessageEnd\<close>
  event, unless an \<open>Error\<close> event comes before it.
\<close>

fun first_message_end :: "queue_message list \<Rightarrow> llm_result option" where
  "first_message_end [] = None"
| "first_message_end (msg # rest) =
     (case qm_event msg of
        QueueMessageEndEvent r \<Rightarrow> Some r
      | QueueErrorEvent e \<Rightarrow> None
      | other \<Rightarrow> first_message_end rest)"

definition hello_then_end :: "queue_message list" where
  "hello_then_end = hello @ [envelope example_manager (QueueMessageEndEvent example_result)]"

definition example_response :: "(string \<times> pyval) list" where
  "example_response =
     [(''event'', PStr ''message''), (''task_id'', PStr ''t1''), (''id'', PStr ''m1''),
      (''mode'', PStr ''chat''), (''answer'', PStr ''done''), (''metadata'', PDict []),
      (''created_at'', PInt 1700000000), (''conversation_id'', PStr ''c1'')]"

definition two_terminal_events :: "queue_message list" where
  "two_terminal_events = [envelope example_manager (QueueMessageEndEvent example_result),
                          envelope example_manager QueueStopEvent]"

definition resources_then_end :: "queue_message list" where
  "resources_then_end =
     [envelope example_manager (QueueRetrieverResourcesEvent [PDict [(''document'', PStr ''d1'')]]),
      envelope example_manager (QueueMessageEndEvent example_result)]"

lemma map_of_dict_set: "map_of (dict_set k v d) k' = (if k' = k then Some v else map_of d k')"
  by (induction d) auto

lemma dict_set_not_empty: "dict_set k v d \<noteq> []"
  by (induction k v d rule: dict_set.induct) simp_all

lemma stream_chunk_no_exception: "snd (snd (stream_event cfg p (QueueMessageEvent c))) = None"
  by (simp add: Let_def split: option.splits)

lemma process_stream_cons:
  assumes "stream_event cfg p (qm_event msg) = (p1, fs1, None)"
  shows "fst (process_stream_response cfg p (msg # rest) ended)
           = fst (process_stream_response cfg p1 rest ended)"
  using assms by (simp split: prod.splits)

lemma save_message_effect:
  assumes "save_message cfg p r = Inr p'"
  shows "length (commits p') = Suc (length (commits p)) \<and> task_state p' = task_state p"
  using assms by (auto simp: save_message_def Let_def split: sum.splits)

lemma blocking_response_metadata:
  assumes "metadata (task_state p) \<noteq> []"
  shows "blocking_response cfg p r = Inl (KeyError ''data'')"
  using assms by (simp add: blocking_response_def with_conversation_id_def map_of_dict_set)

subsection \<open>Finalization\<close>

lemma terminal_result_commits: "commits (terminal_result cfg p ev) = commits p"
  by (cases ev) (simp_all add: terminal_result_def Let_def)

lemma terminal_branch_counts:
  assumes "terminal_branch cfg p ev = (p1, fs, None)"
  shows "length (commits p1) = Suc (length (commits p))
       \<and> length (filter message_end_frame fs) = 1"
  using assms save_message_effect [of cfg "terminal_result cfg p ev"]
  by (auto simp: terminal_branch_def Let_def message_end_response_def with_conversation_id_def
        map_of_dict_set terminal_result_commits split: sum.splits)

lemma stream_event_counts:
  assumes "stream_event cfg p ev = (p1, fs, None)"
  shows "length (commits p1) = length (commits p) + (if terminal ev then 1 else 0)
       \<and> length (filter message_end_frame fs) = (if terminal ev then 1 else 0)"
proof (cases "terminal ev")
  case True
  then have "stream_event cfg p ev = terminal_branch cfg p ev" by (cases ev) simp_all
  with assms True terminal_branch_counts [of cfg p ev p1 fs] show ?thesis by simp
next
  case False
  with assms show ?thesis
    by (cases ev)
       (auto simp: handle_chunk_def message_replace_response_def agent_thought_response_def
          with_conversation_id_def map_of_dict_set Let_def split: option.splits)
qed

lemma process_stream_counts:
  assumes "process_stream_response cfg p msgs ended = (p', fs, None)"
  shows "length (commits p') = length (commits p) + length (filter terminal (map qm_event msgs))
       \<and> length (filter message_end_frame fs) = length (filter terminal (map qm_event msgs))"
  using assms
proof (induction msgs arbitrary: p fs)
  case Nil
  then show ?case by simp
next
  case (Cons msg rest)
  obtain p1 fs1 r1 where ev: "stream_event cfg p (qm_event msg) = (p1, fs1, r1)"
    by (cases "stream_event cfg p (qm_event msg)")
  with Cons.prems have r1: "r1 = None" by (cases r1) auto
  obtain p2 fs2 r2 where rest: "process_stream_response cfg p1 rest ended = (p2, fs2, r2)"
    by (cases "process_stream_response cfg p1 rest ended")
  with Cons.prems ev r1 have eqs: "p' = p2" "fs = fs1 @ fs2" "r2 = None" by auto
  from Cons.IH [of p1 fs2] rest eqs
  have ih: "length (commits p2) = length (commits p1) + length (filter terminal (map qm_event rest))"
           "length (filter message_end_frame fs2) = length (filter terminal (map qm_event rest))"
    by auto
  from stream_event_counts [of cfg p "qm_event msg" p1 fs1] ev r1
  have st: "length (commits p1) = length (commits p) + (if terminal (qm_event msg) then 1 else 0)"
           "length (filter message_end_frame fs1) = (if terminal (qm_event msg) then 1 else 0)"
    by auto
  from ih st eqs show ?case by auto
qed

text \<open>In blocking mode the function returns at the first \<open>MessageEnd\<close>: at most one commit.\<close>

lemma blocking_commits:
  "length (commits (fst (process_blocking_response cfg p msgs ended))) \<le> Suc (length (commits p))"
proof (induction cfg p msgs ended rule: process_blocking_response.induct)
  case (3 cfg p msg rest ended)
  then show ?case
    by (cases "qm_event msg") (auto split: sum.splits dest: save_message_effect)
qed simp_all

text \<open>
  C1, as claimed: \<open>_save_message\<close> runs at most once, and the stream ends after one
  \<open>message_end\<close> frame, also when a \<open>MessageEnd\<close> and then a \<open>Stop\<close> are drained. On these two
  events the streaming assembler commits the message twice and yields two \<open>message_end\<close>
  frames.
\<close>

theorem second_terminal_event_counterexample:
  "length (commits (fst (process_stream_response example_config example_pipeline
       two_terminal_events None))) = 2
   \<and> length (filter message_end_frame (fst (snd (process_stream_response example_config
       example_pipeline two_terminal_events None)))) = 2
   \<and> snd (snd (process_stream_response example_config example_pipeline
       two_terminal_events None)) = None"
  by (simp add: two_terminal_events_def envelope_def example_pipeline_def init_pipeline_def
        terminal_branch_def terminal_result_def save_message_def example_config_def
        prompt_messages_to_prompt_for_saving_def message_end_response_def
        with_conversation_id_def example_result_def Let_def)

text \<open>
  C1, amended: in streaming mode finalization runs once for every terminal event drained.
  In a stream that ends without an exception the number of commits of \<open>_save_message\<close> and
  the number of \<open>message_end\<close> frames both are the number of \<open>Stop\<close> and \<open>MessageEnd\<close>
  events drained; the sequence does not end at a \<open>message_end\<close> frame but when the listener
  ends. So finalization runs at most once exactly when at most one terminal event is drained.
\<close>

theorem stream_finalizes_every_terminal_event:
  assumes "snd (snd (process_stream_response cfg p msgs ended)) = None"
  shows "length (commits (fst (process_stream_response cfg p msgs ended)))
           = length (commits p) + length (filter terminal (map qm_event msgs))
       \<and> length (filter message_end_frame (fst (snd (process_stream_response cfg p msgs ended))))
           = length (filter terminal (map qm_event msgs))"
proof -
  obtain p' fs r where run: "process_stream_response cfg p msgs ended = (p', fs, r)"
    by (cases "process_stream_response cfg p msgs ended")
  with assms have "r = None" by simp
  with run process_stream_counts [of cfg p msgs ended p' fs] show ?thesis by simp
qed

theorem stream_finalizes_every_terminal_event_witness:
  "snd (snd (process_stream_response example_config example_pipeline two_terminal_events None)) = None
   \<and> length (commits (fst (process_stream_response example_config example_pipeline
        two_terminal_events None))) = 2
   \<and> length (filter message_end_frame (fst (snd (process_stream_response example_config
        example_pipeline two_terminal_events None)))) = 2"
proof -
  have h: "snd (snd (process_stream_response example_config example_pipeline
             two_terminal_events None)) = None"
    by (simp add: two_terminal_events_def envelope_def example_pipeline_def init_pipeline_def
          terminal_branch_def terminal_result_def save_message_def example_config_def
          prompt_messages_to_prompt_for_saving_def Let_def)
  have n: "length (filter terminal (map qm_event two_terminal_events)) = 2"
    by (simp add: two_terminal_events_def envelope_def)
  have c: "commits example_pipeline = []"
    by (simp add: example_pipeline_def init_pipeline_def)
  from stream_finalizes_every_terminal_event [OF h] h n c show ?thesis by simp
qed

subsection \<open>Accumulation of the deltas\<close>

lemma stream_chunk_text:
  "assembled_text (fst (stream_event cfg p (QueueMessageEvent c)))
     = assembled_text p @ delta_of (QueueMessageEvent c)"
  by (simp add: assembled_text_def Let_def split: option.splits)

lemma stream_chunks_text:
  assumes "\<forall>msg \<in> set msgs. is_chunk (qm_event msg)"
  shows "assembled_text (fst (process_stream_response cfg p msgs ended))
           = assembled_text p @ concat (map (\<lambda>msg. delta_of (qm_event msg)) msgs)"
  using assms
proof (induction msgs arbitrary: p)
  case Nil
  then show ?case by simp
next
  case (Cons msg rest)
  then obtain c where c: "qm_event msg = QueueMessageEvent c" by (cases "qm_event msg") auto
  obtain p1 fs1 r1 where ev: "stream_event cfg p (qm_event msg) = (p1, fs1, r1)"
    by (cases "stream_event cfg p (qm_event msg)")
  with c stream_chunk_no_exception [of cfg p c] have r1: "r1 = None" by simp
  from ev c stream_chunk_text [of cfg p c]
  have t1: "assembled_text p1 = assembled_text p @ delta_of (qm_event msg)" by simp
  from Cons have "assembled_text (fst (process_stream_response cfg p1 rest ended))
      = assembled_text p1 @ concat (map (\<lambda>msg. delta_of (qm_event msg)) rest)" by simp
  with t1 process_stream_cons [of cfg p msg p1 fs1 rest ended] ev r1 show ?case by simp
qed

lemma blocking_keeps_result:
  "llm_result (task_state (fst (process_blocking_response cfg p msgs ended))) = llm_result (task_state p)"
proof (induction cfg p msgs ended rule: process_blocking_response.induct)
  case (3 cfg p msg rest ended)
  then show ?case
    by (cases "qm_event msg") (auto split: sum.splits dest: save_message_effect)
qed simp_all

lemma blocking_chunks_none:
  assumes "\<forall>msg \<in> set msgs. is_chunk (qm_event msg)"
  shows "snd (process_blocking_response cfg p msgs None) = Inr None"
  using assms
proof (induction msgs)
  case Nil
  then show ?case by simp
next
  case (Cons msg rest)
  then obtain c where c: "qm_event msg = QueueMessageEvent c" by (cases "qm_event msg") auto
  with Cons show ?case by simp
qed

lemma blocking_response_answer:
  assumes "blocking_response cfg p r = Inr response"
  shows "map_of response ''answer'' = Some (PStr (message_text r))"
proof (cases "metadata (task_state p) = []")
  case True
  with assms show ?thesis
    by (auto simp: blocking_response_def with_conversation_id_def map_of_dict_set)
next
  case False
  from blocking_response_metadata [OF False, of cfg r] assms show ?thesis by simp
qed

lemma first_message_end_in_set:
  "first_message_end msgs = Some r \<Longrightarrow> \<exists>msg \<in> set msgs. qm_event msg = QueueMessageEndEvent r"
proof (induction msgs)
  case Nil
  then show ?case by simp
next
  case (Cons msg rest)
  then show ?case by (cases "qm_event msg") auto
qed

lemma blocking_answer_of_message_end:
  assumes "snd (process_blocking_response cfg p msgs ended) = Inr (Some response)"
  shows "\<exists>r. first_message_end msgs = Some r
            \<and> map_of response ''answer'' = Some (PStr (message_text r))"
  using assms
proof (induction cfg p msgs ended rule: process_blocking_response.induct)
  case (3 cfg p msg rest ended)
  then show ?case
    by (cases "qm_event msg") (auto split: sum.splits dest: blocking_response_answer)
qed simp_all

text \<open>
  C6, as claimed: the blocking assembler too accumulates the deltas, so that \<open>Hel\<close>, \<open>lo\<close>,
  \<open> world\<close> give the answer \<open>Hello world\<close> without a later event. In blocking mode the three
  chunk events leave the assembled text empty, and the function returns \<open>None\<close>.
\<close>

theorem blocking_ignores_chunks_counterexample:
  "assembled_text (fst (process_blocking_response example_config example_pipeline hello None)) = []
   \<and> snd (process_blocking_response example_config example_pipeline hello None) = Inr None
   \<and> assembled_text (fst (process_blocking_response example_config example_pipeline hello None))
       \<noteq> ''Hello world''"
  by (simp add: hello_def chunk_of_def envelope_def assembled_text_def example_pipeline_def
        init_pipeline_def)

text \<open>
  C6, amended: the streaming assembler appends the delta text of every drained chunk, in
  order, to the assembled text of the task state, so that \<open>Hel\<close>, \<open>lo\<close>, \<open> world\<close> give
  \<open>Hello world\<close>. The blocking assembler does not accumulate: whatever it drains, it never
  changes the accumulated result of the task state; it ignores chunk events; the answer of a
  response it returns is the text of the \<open>MessageEnd\<close> event it reached; and without a
  \<open>MessageEnd\<close> it returns no response.
\<close>

theorem stream_accumulates_blocking_does_not:
  "((\<forall>msg \<in> set msgs. is_chunk (qm_event msg)) \<longrightarrow>
       assembled_text (fst (process_stream_response cfg p msgs ended))
         = assembled_text p @ concat (map (\<lambda>msg. delta_of (qm_event msg)) msgs)
       \<and> snd (process_blocking_response cfg p msgs None) = Inr None)
   \<and> llm_result (task_state (fst (process_blocking_response cfg p msgs ended)))
       = llm_result (task_state p)
   \<and> assembled_text (fst (process_blocking_response cfg p msgs ended)) = assembled_text p
   \<and> (snd (process_blocking_response cfg p msgs ended) = Inr (Some response) \<longrightarrow>
        (\<exists>r. first_message_end msgs = Some r
              \<and> map_of response ''answer'' = Some (PStr (message_text r))))
   \<and> ((\<forall>msg \<in> set msgs. \<forall>r. qm_event msg \<noteq> QueueMessageEndEvent r) \<longrightarrow>
        snd (process_blocking_response cfg p msgs ended) \<noteq> Inr (Some response))"
proof -
  have chunks: "(\<forall>msg \<in> set msgs. is_chunk (qm_event msg)) \<longrightarrow>
       assembled_text (fst (process_stream_response cfg p msgs ended))
         = assembled_text p @ concat (map (\<lambda>msg. delta_of (qm_event msg)) msgs)
       \<and> snd (process_blocking_response cfg p msgs None) = Inr None"
    using stream_chunks_text [of msgs cfg p ended] blocking_chunks_none [of msgs cfg p] by simp
  have kept: "llm_result (task_state (fst (process_blocking_response cfg p msgs ended)))
       = llm_result (task_state p)"
    by (rule blocking_keeps_result)
  then have same: "assembled_text (fst (process_blocking_response cfg p msgs ended)) = assembled_text p"
    by (simp add: assembled_text_def)
  have answer: "snd (process_blocking_response cfg p msgs ended) = Inr (Some response) \<longrightarrow>
        (\<exists>r. first_message_end msgs = Some r
              \<and> map_of response ''answer'' = Some (PStr (message_text r)))"
    using blocking_answer_of_message_end [of cfg p msgs ended response] by blast
  have none: "(\<forall>msg \<in> set msgs. \<forall>r. qm_event msg \<noteq> QueueMessageEndEvent r) \<longrightarrow>
        snd (process_blocking_response cfg p msgs ended) \<noteq> Inr (Some response)"
    using blocking_answer_of_message_end [of cfg p msgs ended response] first_message_end_in_set [of msgs]
    by blast
  from chunks kept same answer none show ?thesis by blast
qed

theorem stream_accumulates_blocking_does_not_witness:
  "list_all (\<lambda>msg. is_chunk (qm_event msg)) hello
   \<and> assembled_text (fst (process_stream_response example_config example_pipeline hello None))
       = ''Hello world''
   \<and> assembled_text (fst (process_blocking_response example_config example_pipeline hello None)) = []
   \<and> snd (process_blocking_response example_config example_pipeline hello None) = Inr None
   \<and> snd (process_blocking_response example_config example_pipeline hello_then_end None)
       = Inr (Some example_response)
   \<and> first_message_end hello_then_end = Some example_result
   \<and> map_of example_response ''answer'' = Some (PStr (message_text example_result))
   \<and> assembled_text (fst (process_blocking_response example_config example_pipeline
        hello_then_end None)) = []"
  using stream_accumulates_blocking_does_not
      [of hello example_config example_pipeline None example_response]
    stream_accumulates_blocking_does_not
      [of hello_then_end example_config example_pipeline None example_response]
  by (simp add: hello_def hello_then_end_def chunk_of_def envelope_def assembled_text_def
        example_pipeline_def init_pipeline_def example_response_def example_result_def
        save_message_def example_config_def prompt_messages_to_prompt_for_saving_def
        blocking_response_def with_conversation_id_def example_row_def Let_def)

subsection \<open>The blocking response\<close>

text \<open>
  Whatever the configuration, a \<open>MessageEnd\<close> drained after a \<open>RetrieverResources\<close> event
  ends in an exception: that of the response, or before it that of \<open>_save_message\<close>.
\<close>

lemma blocking_resources_never_return:
  "snd (process_blocking_response cfg p
          [m1\<lparr> qm_event := QueueRetrieverResourcesEvent rs \<rparr>,
           m2\<lparr> qm_event := QueueMessageEndEvent r \<rparr>] ended) = Inl (KeyError ''data'')
   \<or> snd (process_blocking_response cfg p
          [m1\<lparr> qm_event := QueueRetrieverResourcesEvent rs \<rparr>,
           m2\<lparr> qm_event := QueueMessageEndEvent r \<rparr>] ended)
       = Inl (IndexError ''list index out of range'')"
proof -
  let ?p = "p\<lparr> task_state := (task_state p)\<lparr>
              metadata := dict_set ''retriever_resources'' (PList rs) (metadata (task_state p)) \<rparr> \<rparr>"
  have ne: "dict_set ''retriever_resources'' (PList rs) (metadata (task_state p)) \<noteq> []"
    by (rule dict_set_not_empty)
  show ?thesis
  proof (cases "save_message cfg ?p r")
    case (Inl e)
    then have "e = IndexError ''list index out of range''"
      by (auto simp: save_message_def prompt_messages_to_prompt_for_saving_def Let_def
            split: sum.splits if_splits list.splits)
    with Inl show ?thesis by simp
  next
    case (Inr p1)
    with save_message_effect [of cfg ?p r p1] ne have "metadata (task_state p1) \<noteq> []" by simp
    with Inr blocking_response_metadata [of p1 cfg r] show ?thesis by simp
  qed
qed

text \<open>
  C7. The claim: in blocking mode a \<open>MessageEnd\<close> drained after \<open>RetrieverResources\<close> events
  returns the response with the resources merged into its metadata. The message is saved,
  and then the assignment through \<open>response['data']\<close> raises \<open>KeyError\<close>: nothing is
  returned.
\<close>

theorem blocking_resources_key_error:
  "snd (process_blocking_response example_config example_pipeline resources_then_end None)
     = Inl (KeyError ''data'')
   \<and> length (commits (fst (process_blocking_response example_config example_pipeline
        resources_then_end None))) = 1"
  by (simp add: resources_then_end_def envelope_def example_pipeline_def init_pipeline_def
        save_message_def example_config_def prompt_messages_to_prompt_for_saving_def
        blocking_response_def with_conversation_id_def Let_def)

subsection \<open>MessageReplace\<close>

text \<open>
  C8. In streaming mode a drained \<open>MessageReplace\<close> event yields exactly one frame, a
  \<open>message_replace\<close> response whose answer is the replacement text, raises nothing and
  leaves the pipeline, the task state with its assembled text included, as it was: the
  rest of the stream runs from the same state.
\<close>

theorem message_replace_frame_only:
  "stream_event cfg p (QueueMessageReplaceEvent t)
     = (p, [Response (message_replace_response cfg p t)], None)
   \<and> map_of (message_replace_response cfg p t) ''event'' = Some (PStr ''message_replace'')
   \<and> map_of (message_replace_response cfg p t) ''answer'' = Some (PStr t)
   \<and> process_stream_response cfg p (msg\<lparr> qm_event := QueueMessageReplaceEvent t \<rparr> # rest) ended
     = (case process_stream_response cfg p rest ended of
          (p', fs, r) \<Rightarrow> (p', Response (message_replace_response cfg p t) # fs, r))"
  by (simp add: message_replace_response_def with_conversation_id_def map_of_dict_set)

theorem message_replace_frame_only_witness:
  "fst (snd (process_stream_response example_config example_pipeline
        (hello @ [envelope example_manager (QueueMessageReplaceEvent ''corrected text'')]) None)) ! 3
     = Response [(''event'', PStr ''message_replace''), (''task_id'', PStr ''t1''),
                 (''message_id'', PStr ''m1''), (''answer'', PStr ''corrected text''),
                 (''created_at'', PInt 1700000000), (''conversation_id'', PStr ''c1'')]
   \<and> assembled_text (fst (process_stream_response example_config example_pipeline
        (hello @ [envelope example_manager (QueueMessageReplaceEvent ''corrected text'')]) None))
     = ''Hello world''
   \<and> stream_event example_config example_pipeline (QueueMessageReplaceEvent ''corrected text'')
     = (example_pipeline,
        [Response (message_replace_response example_config example_pipeline ''corrected text'')], None)"
  using message_replace_frame_only [of example_config example_pipeline "''corrected text''"]
  by (simp add: hello_def chunk_of_def envelope_def assembled_text_def example_pipeline_def
        init_pipeline_def handle_chunk_def message_replace_response_def with_conversation_id_def
        example_config_def example_row_def Let_def)

subsection \<open>Prompt messages\<close>

lemma stream_chunk_prompts:
  "stored_prompt_messages (fst (stream_event cfg p (QueueMessageEvent c)))
     = (if delta_text c \<noteq> None \<and> stored_prompt_messages p = [] then chunk_prompt_messages c
        else stored_prompt_messages p)"
  by (auto simp: stored_prompt_messages_def Let_def split: option.splits)

lemma stream_chunks_keep_prompts:
  assumes "stored_prompt_messages p \<noteq> []" and "\<forall>msg \<in> set msgs. is_chunk (qm_event msg)"
  shows "stored_prompt_messages (fst (process_stream_response cfg p msgs ended)) = stored_prompt_messages p"
  using assms
proof (induction msgs arbitrary: p)
  case Nil
  then show ?case by simp
next
  case (Cons msg rest)
  then obtain c where c: "qm_event msg = QueueMessageEvent c" by (cases "qm_event msg") auto
  obtain p1 fs1 r1 where ev: "stream_event cfg p (qm_event msg) = (p1, fs1, r1)"
    by (cases "stream_event cfg p (qm_event msg)")
  with c stream_chunk_no_exception [of cfg p c] have r1: "r1 = None" by simp
  from ev c stream_chunk_prompts [of cfg p c] Cons.prems(1)
  have p1: "stored_prompt_messages p1 = stored_prompt_messages p" by simp
  with Cons have "stored_prompt_messages (fst (process_stream_response cfg p1 rest ended))
      = stored_prompt_messages p1" by simp
  with p1 process_stream_cons [of cfg p msg p1 fs1 rest ended] ev r1 show ?case by simp
qed

text \<open>
  C10, as claimed: the prompt messages are set from the first drained chunk that carries
  them while the stored list is empty. A chunk whose delta text is \<open>None\<close> is skipped before
  the prompt messages are looked at: here the first chunk carries \<open>first_prompt\<close> and no
  text, and the stored list ends up as the second chunk's.
\<close>

theorem prompt_messages_skipped_counterexample:
  "stored_prompt_messages (fst (process_stream_response example_config example_pipeline
       [chunk_of None [first_prompt], chunk_of (Some ''a'') [second_prompt]] None))
     = [second_prompt]
   \<and> [second_prompt] \<noteq> [first_prompt]"
  by (simp add: chunk_of_def envelope_def stored_prompt_messages_def example_pipeline_def
        init_pipeline_def first_prompt_def second_prompt_def Let_def)

text \<open>
  C10, amended: a drained chunk whose delta text is \<open>None\<close> leaves the stored prompt messages
  alone; a chunk with delta text sets them to its own prompt messages when the stored list
  is empty and leaves them otherwise. So they come from the first drained chunk with delta
  text and prompt messages, and once the list is not empty no later chunk overwrites it.
\<close>

theorem prompt_messages_set_once:
  "stored_prompt_messages (fst (stream_event cfg p (QueueMessageEvent c)))
     = (if delta_text c \<noteq> None \<and> stored_prompt_messages p = [] then chunk_prompt_messages c
        else stored_prompt_messages p)
   \<and> (stored_prompt_messages p \<noteq> [] \<longrightarrow> (\<forall>msg \<in> set msgs. is_chunk (qm_event msg)) \<longrightarrow>
        stored_prompt_messages (fst (process_stream_response cfg p msgs ended))
          = stored_prompt_messages p)"
  using stream_chunk_prompts stream_chunks_keep_prompts by blast

theorem prompt_messages_set_once_witness:
  "stored_prompt_messages (fst (stream_event example_config example_pipeline
       (qm_event (chunk_of (Some ''a'') [first_prompt])))) = [first_prompt]
   \<and> stored_prompt_messages (fst (process_stream_response example_config
        (fst (stream_event example_config example_pipeline
           (qm_event (chunk_of (Some ''a'') [first_prompt]))))
        [chunk_of (Some ''b'') [second_prompt]] None)) = [first_prompt]"
  using prompt_messages_set_once [of example_config example_pipeline
      "\<lparr> chunk_model = ''gpt'', chunk_prompt_messages = [first_prompt], delta_text = Some ''a'' \<rparr>"]
    prompt_messages_set_once [of example_config "fst (stream_event example_config example_pipeline
           (qm_event (chunk_of (Some ''a'') [first_prompt])))"
      "\<lparr> chunk_model = ''gpt'', chunk_prompt_messages = [second_prompt], delta_text = Some ''b'' \<rparr>"
      "[chunk_of (Some ''b'') [second_prompt]]" None]
  by (simp add: chunk_of_def envelope_def stored_prompt_messages_def example_pipeline_def
        init_pipeline_def first_prompt_def second_prompt_def Let_def)

end
